theory Spec2Isabelle
  imports Main "HOL-Library.AList" "HOL-Library.Char_ord" "HOL-Library.List_Lexorder"
begin

section \<open>JavaScript values\<close>

text \<open>
  The service is JavaScript: attribute sets, query parameters and database rows are plain
  objects, and the code tests them with truthiness, strict equality and property access.
  Values are modelled as a datatype; an object is an association list from property names
  to values, read at the first entry of a name and written with \<open>AList.update\<close>, which
  overwrites the entry of a name in place or appends a new one, as an object literal with
  a spread does. Numbers are integers (ids and timestamps; no \<open>NaN\<close>).
\<close>

datatype jsval =
    JUndefined
  | JNull
  | JBool bool
  | JNum int
  | JStr string
  | JArr "jsval list"
  | JObj "(string \<times> jsval) list"

type_synonym obj = "(string \<times> jsval) list"

text \<open>Truthiness, as \<open>if (v)\<close>, \<open>!v\<close> and \<open>a || b\<close> read a value: an array is truthy
  even when it is empty.\<close>

fun truthy :: "jsval \<Rightarrow> bool" where
  "truthy JUndefined = False"
| "truthy JNull = False"
| "truthy (JBool b) = b"
| "truthy (JNum n) = (n \<noteq> 0)"
| "truthy (JStr s) = (s \<noteq> [])"
| "truthy (JArr xs) = True"
| "truthy (JObj kvs) = True"

definition js_or :: "jsval \<Rightarrow> jsval \<Rightarrow> jsval" where
  "js_or a b = (if truthy a then a else b)"

text \<open>
  Property access \<open>o.k\<close> on a value that is neither \<open>null\<close> nor \<open>undefined\<close>, and lodash's
  \<open>property(k)\<close> on any value: a missing property reads as \<open>undefined\<close>, and so does any
  property of a string, number or boolean (the names read in this file are \<open>type\<close>,
  \<open>permissions\<close>, \<open>id\<close>, \<open>action\<close>, \<open>select\<close>, \<open>populate\<close>, \<open>where\<close>, \<open>data\<close>, \<open>token\<close> and
  \<open>name\<close>: none is \<open>length\<close> or an index).
\<close>

fun property :: "string \<Rightarrow> jsval \<Rightarrow> jsval" where
  "property k (JObj kvs) = (case map_of kvs k of Some v \<Rightarrow> v | None \<Rightarrow> JUndefined)"
| "property k v = JUndefined"

datatype error = Error string | TypeError string

text \<open>\<open>o.k\<close> and the destructuring \<open>({ k }) => ...\<close> raise a TypeError on \<open>null\<close> and
  \<open>undefined\<close>.\<close>

fun member :: "jsval \<Rightarrow> string \<Rightarrow> error + jsval" where
  "member JUndefined k = Inl (TypeError ''Cannot read properties of undefined'')"
| "member JNull k = Inl (TypeError ''Cannot read properties of null'')"
| "member v k = Inr (property k v)"

text \<open>The spread \<open>{ ...v }\<close>: the own properties of an object, nothing for \<open>null\<close>,
  \<open>undefined\<close>, numbers and booleans. (A string or an array would spread its indices; the
  values spread in this file are the records a query returns.)\<close>

fun spread :: "jsval \<Rightarrow> obj" where
  "spread (JObj kvs) = kvs"
| "spread v = []"

definition Object_keys :: "obj \<Rightarrow> string list" where
  "Object_keys kvs = remdups (map fst kvs)"

text \<open>\<open>xs.map(f)\<close> with a callback that can raise: the first error ends the loop.\<close>

fun mapE :: "('a \<Rightarrow> error + 'b) \<Rightarrow> 'a list \<Rightarrow> error + 'b list" where
  "mapE f [] = Inr []"
| "mapE f (x # xs) =
     (case f x of
        Inl e \<Rightarrow> Inl e
      | Inr y \<Rightarrow> (case mapE f xs of Inl e \<Rightarrow> Inl e | Inr ys \<Rightarrow> Inr (y # ys)))"

subsection \<open>lodash/fp\<close>

text \<open>
  \<open>omit(k, o)\<close> copies \<open>o\<close> without the property \<open>k\<close>.
\<close>

definition omit :: "string \<Rightarrow> obj \<Rightarrow> obj" where
  "omit k kvs = AList.delete k kvs"

text \<open>The elements of an array; no element for any other value.\<close>

fun elements :: "jsval \<Rightarrow> jsval list" where
  "elements (JArr xs) = xs"
| "elements v = []"

text \<open>
  lodash reads a list argument through \<open>isArrayLikeObject\<close>: an array gives its elements,
  and so does an object with a \<open>length\<close> that is an integer from 0 to \<open>2^53 - 1\<close>, read at
  the properties \<open>0\<close>, ..., \<open>length - 1\<close> (a missing one is \<open>undefined\<close>); every other value,
  a string included, counts as the empty list. \<open>index_key\<close> is the decimal name of an
  index.
\<close>

function index_key :: "nat \<Rightarrow> string" where
  "index_key n =
     (if n < 10 then [char_of (48 + n)]
      else index_key (n div 10) @ [char_of (48 + n mod 10)])"
  by pat_completeness auto
termination
  by (relation "measure (\<lambda>n. n)") auto

declare index_key.simps [simp del]

fun array_like :: "jsval \<Rightarrow> jsval list" where
  "array_like (JArr xs) = xs"
| "array_like (JObj kvs) =
     (case property ''length'' (JObj kvs) of
        JNum n \<Rightarrow>
          if 0 \<le> n \<and> n \<le> 9007199254740991
          then map (\<lambda>i. property (index_key i) (JObj kvs)) [0..<nat n]
          else []
      | _ \<Rightarrow> [])"
| "array_like v = []"

text \<open>
  \<open>differenceBy(k, array, values)\<close> keeps, in order and with repetitions, the elements of
  \<open>array\<close> whose \<open>property(k)\<close> is not the \<open>property(k)\<close> of any element of \<open>values\<close>.
  lodash compares the computed keys with SameValueZero, which on strings and \<open>undefined\<close>
  (the keys met here) is equality of values.
\<close>

definition differenceBy :: "string \<Rightarrow> jsval \<Rightarrow> jsval \<Rightarrow> jsval list" where
  "differenceBy k array vals =
     filter (\<lambda>x. property k x \<notin> set (map (property k) (array_like vals))) (array_like array)"

section \<open>The collaborators\<close>

text \<open>
  The service reaches the database, the configuration and the entity service through the
  global \<open>strapi\<close>. Each call is a state transformer on the collaborator's state \<open>'s\<close> that
  resolves to a value or rejects with an error. \<open>strapi.query(uid).m(params)\<close> is
  \<open>query strapi uid m params\<close>.
\<close>

type_synonym ('s, 'a) io = "'s \<Rightarrow> (error + 'a) \<times> 's"

definition resolve :: "'a \<Rightarrow> ('s, 'a) io" where
  "resolve a s = (Inr a, s)"

definition throw :: "error \<Rightarrow> ('s, 'a) io" where
  "throw e s = (Inl e, s)"

text \<open>\<open>const x = await m; ...\<close>\<close>

definition await :: "('s, 'a) io \<Rightarrow> ('a \<Rightarrow> ('s, 'b) io) \<Rightarrow> ('s, 'b) io" where
  "await m f s = (case m s of (Inl e, s') \<Rightarrow> (Inl e, s') | (Inr a, s') \<Rightarrow> f a s')"

datatype query_method = Create | CreateMany | FindOne | FindMany | Update | Delete | DeleteMany

record 's strapi =
  config_get :: "string \<Rightarrow> 's \<Rightarrow> jsval"
  config_set :: "string \<Rightarrow> jsval \<Rightarrow> 's \<Rightarrow> 's"
  query :: "string \<Rightarrow> query_method \<Rightarrow> obj \<Rightarrow> ('s, jsval) io"
  entityService_load :: "string \<Rightarrow> jsval \<Rightarrow> string \<Rightarrow> ('s, jsval) io"

text \<open>
  A collaborator that records the calls made to it: \<open>logged strapi\<close> behaves as \<open>strapi\<close>
  and appends every query and every relation load to a list of calls.
\<close>

datatype call = Query string query_method obj | Load string jsval string

definition logged :: "'s strapi \<Rightarrow> ('s \<times> call list) strapi" where
  "logged strapi =
     \<lparr>config_get = (\<lambda>key (s, calls). config_get strapi key s),
      config_set = (\<lambda>key v (s, calls). (config_set strapi key v s, calls)),
      query = (\<lambda>uid m params (s, calls).
                 case query strapi uid m params s of
                   (r, s') \<Rightarrow> (r, (s', calls @ [Query uid m params]))),
      entityService_load = (\<lambda>uid entity field (s, calls).
                 case entityService_load strapi uid entity field s of
                   (r, s') \<Rightarrow> (r, (s', calls @ [Load uid entity field])))\<rparr>"

text \<open>
  Node's \<open>crypto.createHmac('sha512', key).update(data).digest('hex')\<close>. The keyed digest
  itself is the parameter \<open>hmac_sha512\<close>; \<open>createHmac\<close> checks its key argument first and
  raises a TypeError (\<open>ERR_INVALID_ARG_TYPE\<close>) for a key that is not a string (buffers and
  key objects are not values of this model).
\<close>

definition createHmac :: "(string \<Rightarrow> string \<Rightarrow> string) \<Rightarrow> jsval \<Rightarrow> string \<Rightarrow> error + string" where
  "createHmac hmac_sha512 key msg =
     (case key of
        JStr k \<Rightarrow> Inr (hmac_sha512 k msg)
      | _ \<Rightarrow> Inl (TypeError ''The key argument must be of type string''))"

section \<open>services/api-token.js\<close>

definition SELECT_FIELDS :: "string list" where
  "SELECT_FIELDS = [''id'', ''name'', ''description'', ''type'', ''createdAt'']"

definition POPULATE_FIELDS :: "string list" where
  "POPULATE_FIELDS = [''permissions'']"

definition strings :: "string list \<Rightarrow> jsval" where
  "strings xs = JArr (map JStr xs)"

definition assertCustomTokenPermissionsValidity :: "obj \<Rightarrow> error + unit" where
  "assertCustomTokenPermissionsValidity attributes =
     (if property ''type'' (JObj attributes) \<noteq> JStr ''custom''
         \<and> truthy (property ''permissions'' (JObj attributes))
      then Inl (Error ''Non-custom tokens should not references permissions'')
      else if property ''type'' (JObj attributes) = JStr ''custom''
         \<and> \<not> truthy (property ''permissions'' (JObj attributes))
      then Inl (Error ''Missing permissions attributes for custom token'')
      else Inr ())"

definition hash :: "'s strapi \<Rightarrow> (string \<Rightarrow> string \<Rightarrow> string) \<Rightarrow> string \<Rightarrow> 's \<Rightarrow> error + string" where
  "hash strapi hmac_sha512 accessKey s =
     createHmac hmac_sha512 (config_get strapi ''admin.apiToken.salt'' s) accessKey"

text \<open>
  \<open>create\<close>. The plaintext key \<open>crypto.randomBytes(128).toString('hex')\<close> is the argument
  \<open>accessKey\<close>: the 256 hexadecimal digits the generator returned for this call.
\<close>

definition create :: "'s strapi \<Rightarrow> (string \<Rightarrow> string \<Rightarrow> string) \<Rightarrow> string \<Rightarrow> obj \<Rightarrow> ('s, jsval) io" where
  "create strapi hmac_sha512 accessKey attributes s =
     (case assertCustomTokenPermissionsValidity attributes of
        Inl e \<Rightarrow> (Inl e, s)
      | Inr u \<Rightarrow>
     (case hash strapi hmac_sha512 accessKey s of
        Inl e \<Rightarrow> (Inl e, s)
      | Inr digest \<Rightarrow>
          await (query strapi ''admin::api-token'' Create
                  [(''select'', strings SELECT_FIELDS),
                   (''populate'', strings POPULATE_FIELDS),
                   (''data'', JObj (AList.update ''accessKey'' (JStr digest)
                                      (omit ''permissions'' attributes)))])
            (\<lambda>apiToken.
               let result = AList.update ''accessKey'' (JStr accessKey) (spread apiToken) in
               if property ''type'' (JObj attributes) = JStr ''custom'' then
                 (case property ''permissions'' (JObj attributes) of
                    JArr actions \<Rightarrow>
                      (case mapE (\<lambda>action.
                                    case member apiToken ''id'' of
                                      Inl e \<Rightarrow> Inl e
                                    | Inr ident \<Rightarrow>
                                        Inr (JObj [(''action'', action), (''token'', ident)]))
                                 actions of
                         Inl e \<Rightarrow> throw e
                       | Inr rows \<Rightarrow>
                           await (query strapi ''admin::token-permission'' CreateMany
                                    [(''data'', JArr rows)])
                             (\<lambda>permissions.
                                resolve (JObj (AList.update ''permissions'' permissions result))))
                  | _ \<Rightarrow> throw (TypeError ''attributes.permissions.map is not a function''))
               else resolve (JObj result)) s))"

text \<open>
  \<open>checkSaltIsDefined\<close>. \<open>process.env.API_TOKEN_SALT\<close> is the argument \<open>env_salt\<close>; the
  result lists the warnings given to \<open>process.emitWarning\<close> (the messages are cut to their
  first sentence).
\<close>

definition checkSaltIsDefined :: "'s strapi \<Rightarrow> jsval \<Rightarrow> ('s, string list) io" where
  "checkSaltIsDefined strapi env_salt s =
     (if \<not> truthy (config_get strapi ''admin.apiToken.salt'' s) then
        if truthy env_salt then
          (Inr [''[deprecated] In future versions, Strapi will stop reading directly from the environment variable API_TOKEN_SALT.''],
           config_set strapi ''admin.apiToken.salt'' env_salt s)
        else (Inl (Error ''Missing apiToken.salt.''), s)
      else (Inr [], s))"

definition list :: "'s strapi \<Rightarrow> ('s, jsval) io" where
  "list strapi =
     query strapi ''admin::api-token'' FindMany
       [(''select'', strings SELECT_FIELDS),
        (''populate'', strings POPULATE_FIELDS),
        (''orderBy'', JObj [(''name'', JStr ''ASC'')])]"

definition revoke :: "'s strapi \<Rightarrow> jsval \<Rightarrow> ('s, jsval) io" where
  "revoke strapi ident =
     query strapi ''admin::api-token'' Delete
       [(''select'', strings SELECT_FIELDS),
        (''populate'', strings POPULATE_FIELDS),
        (''where'', JObj [(''id'', ident)])]"

definition getBy :: "'s strapi \<Rightarrow> obj \<Rightarrow> ('s, jsval) io" where
  "getBy strapi whereParams =
     (if length (Object_keys whereParams) = 0 then resolve JNull
      else query strapi ''admin::api-token'' FindOne
             [(''select'', strings SELECT_FIELDS),
              (''populate'', strings POPULATE_FIELDS),
              (''where'', JObj whereParams)])"

definition exists :: "'s strapi \<Rightarrow> obj \<Rightarrow> ('s, bool) io" where
  "exists strapi whereParams =
     await (getBy strapi whereParams) (\<lambda>apiToken. resolve (truthy apiToken))"

definition getById :: "'s strapi \<Rightarrow> jsval \<Rightarrow> ('s, jsval) io" where
  "getById strapi ident = getBy strapi [(''id'', ident)]"

definition getByName :: "'s strapi \<Rightarrow> jsval \<Rightarrow> ('s, jsval) io" where
  "getByName strapi name = getBy strapi [(''name'', name)]"

text \<open>
  \<open>update\<close>. The two differences of lines 198 and 199 are named as the source names them;
  both compare by the property \<open>action\<close>, on the stored permission rows and on the
  elements of \<open>attributes.permissions\<close> alike.
\<close>

definition permissionsToDelete :: "jsval \<Rightarrow> obj \<Rightarrow> jsval list" where
  "permissionsToDelete token attributes =
     differenceBy ''action'' (property ''permissions'' token)
       (property ''permissions'' (JObj attributes))"

definition permissionsToCreate :: "jsval \<Rightarrow> obj \<Rightarrow> jsval list" where
  "permissionsToCreate token attributes =
     differenceBy ''action'' (property ''permissions'' (JObj attributes))
       (property ''permissions'' token)"

definition update :: "'s strapi \<Rightarrow> jsval \<Rightarrow> obj \<Rightarrow> ('s, jsval) io" where
  "update strapi ident attributes =
     await (query strapi ''admin::api-token'' FindOne [(''where'', JObj [(''id'', ident)])])
       (\<lambda>oldToken.
     if \<not> truthy oldToken then throw (Error ''Token not found'')
     else
     (case assertCustomTokenPermissionsValidity
             (AList.update ''type''
                (js_or (property ''type'' (JObj attributes)) (property ''type'' oldToken))
                attributes) of
        Inl e \<Rightarrow> throw e
      | Inr u \<Rightarrow>
     await (query strapi ''admin::api-token'' Update
              [(''select'', strings SELECT_FIELDS),
               (''populate'', strings POPULATE_FIELDS),
               (''where'', JObj [(''id'', ident)]),
               (''data'', JObj (omit ''permissions'' attributes))])
       (\<lambda>token.
     (case member token ''type'' of
        Inl e \<Rightarrow> throw e
      | Inr tokenType \<Rightarrow>
     await (if tokenType = JStr ''custom'' then
              await (query strapi ''admin::token-permission'' DeleteMany
                       [(''where'', JObj [(''action'',
                           JArr (map (property ''action'') (permissionsToDelete token attributes)))])])
                (\<lambda>deleted.
              (case mapE (\<lambda>p. case member p ''action'' of
                                  Inl e \<Rightarrow> Inl e
                                | Inr action \<Rightarrow>
                                    Inr (JObj [(''action'', action), (''token'', ident)]))
                         (permissionsToCreate token attributes) of
                 Inl e \<Rightarrow> throw e
               | Inr rows \<Rightarrow>
                   query strapi ''admin::token-permission'' CreateMany [(''data'', JArr rows)]))
            else resolve JUndefined)
       (\<lambda>reconciled.
     await (entityService_load strapi ''admin::api-token'' token ''permissions'')
       (\<lambda>permissions.
     resolve (JObj (AList.update ''permissions'' permissions (spread token)))))))))"

section \<open>A persistence collaborator\<close>

text \<open>
  Modelled from the spec: the database behind \<open>strapi.query\<close> and \<open>strapi.entityService\<close>,
  which is not part of the service file. The store follows the contract of section 6 (a typed
  store with \<open>findOne\<close>, \<open>findMany\<close>, \<open>create\<close>, \<open>createMany\<close>, \<open>update\<close>, \<open>delete\<close>,
  \<open>deleteMany\<close> and a relation load, each with a filter and a projection): two tables of
  rows, a counter for fresh ids and a clock for \<open>createdAt\<close>.
\<close>

record db =
  config :: obj
  tokens :: "obj list"
  token_permissions :: "obj list"
  next_id :: int
  now :: int

text \<open>Modelled from the spec: the filter of the persistence collaborator (section 6,
  \<open>filter\<close>). A row matches when each property of the filter equals the row's property; a
  filter property that is an array matches any of its elements; no filter matches every
  row.\<close>

definition matches :: "jsval \<Rightarrow> obj \<Rightarrow> bool" where
  "matches wh row =
     list_all (\<lambda>(k, v). case v of
                           JArr vs \<Rightarrow> property k (JObj row) \<in> set vs
                         | _ \<Rightarrow> property k (JObj row) = v)
              (spread wh)"

text \<open>Modelled from the spec: the projection of the persistence collaborator (section 6,
  \<open>projection\<close>): only the selected properties of a row are returned; without a selection,
  all are.\<close>

definition project :: "jsval \<Rightarrow> obj \<Rightarrow> obj" where
  "project sel row =
     (case sel of
        JArr names \<Rightarrow> filter (\<lambda>(k, v). JStr k \<in> set names) row
      | _ \<Rightarrow> row)"

text \<open>Modelled from the spec: the permissions of a token are the permission rows whose
  \<open>token\<close> is the token's id (section 3, Permission).\<close>

definition related :: "obj list \<Rightarrow> obj \<Rightarrow> obj list" where
  "related perms row =
     filter (\<lambda>p. property ''token'' (JObj p) = property ''id'' (JObj row)) perms"

text \<open>Modelled from the spec: what a token query returns for a row: the projection, with
  the permissions of the row under \<open>permissions\<close> when they are to be populated.\<close>

definition view :: "obj \<Rightarrow> db \<Rightarrow> obj \<Rightarrow> jsval" where
  "view params s row =
     (if JStr ''permissions'' \<in> set (elements (property ''populate'' (JObj params)))
      then JObj (AList.update ''permissions''
                   (JArr (map JObj (related (token_permissions s) row)))
                   (project (property ''select'' (JObj params)) row))
      else JObj (project (property ''select'' (JObj params)) row))"

text \<open>Modelled from the spec: \<open>create(data, projection) -> record\<close> on tokens; the store
  assigns the id and \<open>createdAt\<close>.\<close>

definition token_create :: "obj \<Rightarrow> (db, jsval) io" where
  "token_create params s =
     (let row = AList.update ''createdAt'' (JNum (now s))
                  (AList.update ''id'' (JNum (next_id s))
                     (spread (property ''data'' (JObj params))));
          s' = s\<lparr>tokens := tokens s @ [row], next_id := next_id s + 1, now := now s + 1\<rparr>
      in (Inr (view params s' row), s'))"

text \<open>Modelled from the spec: \<open>findOne(filter, projection) -> record | null\<close> on tokens.\<close>

definition token_findOne :: "obj \<Rightarrow> (db, jsval) io" where
  "token_findOne params s =
     (case filter (matches (property ''where'' (JObj params))) (tokens s) of
        [] \<Rightarrow> (Inr JNull, s)
      | row # rest \<Rightarrow> (Inr (view params s row), s))"

text \<open>Modelled from the spec: \<open>findMany(filter, projection, orderBy) -> sequence of record\<close>
  on tokens, in ascending order of \<open>name\<close>.\<close>

definition name_of :: "obj \<Rightarrow> string" where
  "name_of row = (case property ''name'' (JObj row) of JStr n \<Rightarrow> n | _ \<Rightarrow> [])"

definition token_findMany :: "obj \<Rightarrow> (db, jsval) io" where
  "token_findMany params s =
     (Inr (JArr (map (view params s)
                   (sort_key name_of
                      (filter (matches (property ''where'' (JObj params))) (tokens s))))),
      s)"

text \<open>Modelled from the spec: \<open>update(filter, data, projection) -> record\<close> on tokens: the
  first matching row takes the properties of \<open>data\<close>; \<open>null\<close> when no row matches.\<close>

fun replace_first :: "('a \<Rightarrow> bool) \<Rightarrow> 'a \<Rightarrow> 'a list \<Rightarrow> 'a list" where
  "replace_first P y [] = []"
| "replace_first P y (x # xs) = (if P x then y # xs else x # replace_first P y xs)"

definition token_update :: "obj \<Rightarrow> (db, jsval) io" where
  "token_update params s =
     (case filter (matches (property ''where'' (JObj params))) (tokens s) of
        [] \<Rightarrow> (Inr JNull, s)
      | row # rest \<Rightarrow>
          (let row' = AList.merge row (spread (property ''data'' (JObj params)));
               s' = s\<lparr>tokens := replace_first (matches (property ''where'' (JObj params)))
                                  row' (tokens s)\<rparr>
           in (Inr (view params s' row'), s')))"

text \<open>Modelled from the spec: \<open>delete(filter, projection) -> record\<close> on tokens: the first
  matching row is returned as it was and removed, and its permissions go with it
  (section 4.4, \<open>revoke\<close>); \<open>null\<close> when no row matches.\<close>

fun remove_first :: "('a \<Rightarrow> bool) \<Rightarrow> 'a list \<Rightarrow> 'a list" where
  "remove_first P [] = []"
| "remove_first P (x # xs) = (if P x then xs else x # remove_first P xs)"

definition token_delete :: "obj \<Rightarrow> (db, jsval) io" where
  "token_delete params s =
     (case filter (matches (property ''where'' (JObj params))) (tokens s) of
        [] \<Rightarrow> (Inr JNull, s)
      | row # rest \<Rightarrow>
          (Inr (view params s row),
           s\<lparr>tokens := remove_first (matches (property ''where'' (JObj params))) (tokens s),
             token_permissions :=
               filter (\<lambda>p. property ''token'' (JObj p) \<noteq> property ''id'' (JObj row))
                 (token_permissions s)\<rparr>))"

text \<open>Modelled from the spec: \<open>createMany(data[]) -> sequence of record\<close> on permissions:
  one row for each element of \<open>data\<close>, with fresh ids.\<close>

definition permission_createMany :: "obj \<Rightarrow> (db, jsval) io" where
  "permission_createMany params s =
     (let data = elements (property ''data'' (JObj params));
          rows = map (\<lambda>(i, d). AList.update ''id'' (JNum (next_id s + int i)) (spread d))
                   (zip [0..<length data] data)
      in (Inr (JArr (map JObj rows)),
          s\<lparr>token_permissions := token_permissions s @ rows,
            next_id := next_id s + int (length data)\<rparr>))"

text \<open>Modelled from the spec: \<open>deleteMany(filter) -> void\<close> on permissions: every matching
  row is removed.\<close>

definition permission_deleteMany :: "obj \<Rightarrow> (db, jsval) io" where
  "permission_deleteMany params s =
     (Inr JUndefined,
      s\<lparr>token_permissions :=
          filter (\<lambda>p. \<not> matches (property ''where'' (JObj params)) p) (token_permissions s)\<rparr>)"

text \<open>Modelled from the spec: \<open>loadRelated(record, relationName) -> related records\<close>.\<close>

definition store_load :: "string \<Rightarrow> jsval \<Rightarrow> string \<Rightarrow> (db, jsval) io" where
  "store_load uid entity field s =
     (if uid = ''admin::api-token'' \<and> field = ''permissions''
      then (Inr (JArr (map JObj (related (token_permissions s) (spread entity)))), s)
      else (Inl (Error ''unknown relation''), s))"

text \<open>Modelled from the spec: the operations of the store by entity kind; a call the
  service never makes is rejected.\<close>

definition store_query :: "string \<Rightarrow> query_method \<Rightarrow> obj \<Rightarrow> (db, jsval) io" where
  "store_query uid m params s =
     (if uid = ''admin::api-token'' then
        (case m of
           Create \<Rightarrow> token_create params s
         | FindOne \<Rightarrow> token_findOne params s
         | FindMany \<Rightarrow> token_findMany params s
         | Update \<Rightarrow> token_update params s
         | Delete \<Rightarrow> token_delete params s
         | _ \<Rightarrow> (Inl (Error ''unsupported query''), s))
      else if uid = ''admin::token-permission'' then
        (case m of
           CreateMany \<Rightarrow> permission_createMany params s
         | DeleteMany \<Rightarrow> permission_deleteMany params s
         | _ \<Rightarrow> (Inl (Error ''unsupported query''), s))
      else (Inl (Error ''unsupported query''), s))"

text \<open>Modelled from the spec: the configuration collaborator, \<open>get(key) -> value\<close> and
  \<open>set(key, value) -> void\<close>, and the store as the global \<open>strapi\<close>.\<close>

definition store :: "db strapi" where
  "store =
     \<lparr>config_get = (\<lambda>key s. property key (JObj (config s))),
      config_set = (\<lambda>key v s. s\<lparr>config := AList.update key v (config s)\<rparr>),
      query = store_query,
      entityService_load = store_load\<rparr>"

section \<open>Public projections\<close>

text \<open>
  A response is a public projection when it is \<open>null\<close> or an object whose properties are
  among \<open>SELECT_FIELDS\<close> and \<open>POPULATE_FIELDS\<close>: \<open>id\<close>, \<open>name\<close>, \<open>description\<close>, \<open>type\<close>,
  \<open>createdAt\<close> and \<open>permissions\<close>.
\<close>

definition public_projection :: "jsval \<Rightarrow> bool" where
  "public_projection v =
     (case v of
        JObj kvs \<Rightarrow> set (map fst kvs) \<subseteq> set (SELECT_FIELDS @ POPULATE_FIELDS)
      | JNull \<Rightarrow> True
      | _ \<Rightarrow> False)"

section \<open>Example states\<close>

text \<open>
  \<open>scenario_db\<close> is the state of scenario D: one custom token, with id 1, holding the
  permissions \<open>a\<close> and \<open>b\<close>. \<open>two_tokens_db\<close> adds a second custom token, with id 2,
  holding the permission \<open>a\<close>. \<open>toy_hmac\<close> stands for the keyed digest where a concrete
  one is needed.
\<close>

definition scenario_db :: db where
  "scenario_db =
     \<lparr>config = [(''admin.apiToken.salt'', JStr ''k'')],
      tokens = [[(''id'', JNum 1), (''name'', JStr ''t''), (''type'', JStr ''custom''),
                 (''accessKey'', JStr ''h1''), (''createdAt'', JNum 0)]],
      token_permissions =
               [[(''id'', JNum 10), (''action'', JStr ''a''), (''token'', JNum 1)],
                [(''id'', JNum 11), (''action'', JStr ''b''), (''token'', JNum 1)]],
      next_id = 20, now = 5\<rparr>"

definition two_tokens_db :: db where
  "two_tokens_db =
     \<lparr>config = [(''admin.apiToken.salt'', JStr ''k'')],
      tokens = [[(''id'', JNum 1), (''name'', JStr ''t''), (''type'', JStr ''custom''),
                 (''accessKey'', JStr ''h1''), (''createdAt'', JNum 0)],
                [(''id'', JNum 2), (''name'', JStr ''u''), (''type'', JStr ''custom''),
                 (''accessKey'', JStr ''h2''), (''createdAt'', JNum 1)]],
      token_permissions =
               [[(''id'', JNum 10), (''action'', JStr ''a''), (''token'', JNum 1)],
                [(''id'', JNum 11), (''action'', JStr ''b''), (''token'', JNum 1)],
                [(''id'', JNum 12), (''action'', JStr ''a''), (''token'', JNum 2)]],
      next_id = 20, now = 5\<rparr>"

definition toy_hmac :: "string \<Rightarrow> string \<Rightarrow> string" where
  "toy_hmac k m = k @ m"

section \<open>The permission validation\<close>

lemma store_query_token [simp]:
  "query store ''admin::api-token'' Create = token_create"
  "query store ''admin::api-token'' FindOne = token_findOne"
  "query store ''admin::api-token'' FindMany = token_findMany"
  "query store ''admin::api-token'' Update = token_update"
  "query store ''admin::api-token'' Delete = token_delete"
  "query store ''admin::token-permission'' CreateMany = permission_createMany"
  "query store ''admin::token-permission'' DeleteMany = permission_deleteMany"
  "entityService_load store = store_load"
  by (simp_all add: store_def store_query_def fun_eq_iff)

lemma validity_cases:
  "(assertCustomTokenPermissionsValidity attributes
      = Inl (Error ''Non-custom tokens should not references permissions'')
    \<longleftrightarrow> property ''type'' (JObj attributes) \<noteq> JStr ''custom''
        \<and> truthy (property ''permissions'' (JObj attributes)))
   \<and> (assertCustomTokenPermissionsValidity attributes
      = Inl (Error ''Missing permissions attributes for custom token'')
    \<longleftrightarrow> property ''type'' (JObj attributes) = JStr ''custom''
        \<and> \<not> truthy (property ''permissions'' (JObj attributes)))
   \<and> (assertCustomTokenPermissionsValidity attributes = Inr ()
    \<longleftrightarrow> (property ''type'' (JObj attributes) = JStr ''custom'')
        = truthy (property ''permissions'' (JObj attributes)))"
  by (auto simp: assertCustomTokenPermissionsValidity_def)

text \<open>A rejected attribute set ends \<open>create\<close> before the digest is computed and before any
  call to the collaborator.\<close>

lemma create_rejected:
  "assertCustomTokenPermissionsValidity attributes = Inl e
   \<Longrightarrow> create strapi hmac_sha512 accessKey attributes s = (Inl e, s)"
  by (simp add: create_def)

text \<open>\<open>update\<close> validates the attributes under the effective type, after the token was
  found and before it writes.\<close>

lemma update_rejected:
  "query strapi ''admin::api-token'' FindOne [(''where'', JObj [(''id'', ident)])] s
     = (Inr oldToken, s')
   \<Longrightarrow> truthy oldToken
   \<Longrightarrow> assertCustomTokenPermissionsValidity
         (AList.update ''type''
            (js_or (property ''type'' (JObj attributes)) (property ''type'' oldToken))
            attributes) = Inl e
   \<Longrightarrow> update strapi ident attributes s = (Inl e, s')"
  by (simp add: update_def await_def throw_def)

text \<open>Where the \<open>permissions\<close> attribute is absent or a list that is not empty, the
  validation is the one the comments at lines 36 and 41 describe: it fails exactly for a
  non-custom type with a list of permissions and for a custom type without one.\<close>

lemma validity_off_the_empty_list:
  assumes "property ''permissions'' (JObj attributes) = JUndefined
           \<or> (\<exists>x xs. property ''permissions'' (JObj attributes) = JArr (x # xs))"
  shows "(assertCustomTokenPermissionsValidity attributes
            = Inl (Error ''Non-custom tokens should not references permissions'')
          \<longleftrightarrow> property ''type'' (JObj attributes) \<noteq> JStr ''custom''
              \<and> (\<exists>x xs. property ''permissions'' (JObj attributes) = JArr (x # xs)))
         \<and> (assertCustomTokenPermissionsValidity attributes
            = Inl (Error ''Missing permissions attributes for custom token'')
          \<longleftrightarrow> property ''type'' (JObj attributes) = JStr ''custom''
              \<and> property ''permissions'' (JObj attributes) = JUndefined)"
  using assms validity_cases [of attributes] by auto

text \<open>
  C1 on the code, at an empty permissions list. Both guards test the truthiness of
  \<open>attributes.permissions\<close>, and the empty array is truthy. So a non-custom token with
  \<open>permissions: []\<close>, which carries no permission, is rejected by the validation and by
  \<open>create\<close>; and a custom token with \<open>permissions: []\<close> passes the validation, and \<open>create\<close>
  stores it (with id 20) and no permission row for it, where the comment at line 41 wants
  a custom token to have permissions always.
\<close>

theorem empty_permissions_list_mishandled:
  "assertCustomTokenPermissionsValidity
     [(''name'', JStr ''n''), (''type'', JStr ''read-only''), (''permissions'', JArr [])]
     = Inl (Error ''Non-custom tokens should not references permissions'')
   \<and> assertCustomTokenPermissionsValidity
     [(''name'', JStr ''n''), (''type'', JStr ''custom''), (''permissions'', JArr [])]
     = Inr ()
   \<and> create store toy_hmac ''secret''
        [(''name'', JStr ''n''), (''type'', JStr ''read-only''), (''permissions'', JArr [])]
        scenario_db
     = (Inl (Error ''Non-custom tokens should not references permissions''), scenario_db)
   \<and> fst (create store toy_hmac ''secret''
        [(''name'', JStr ''n''), (''type'', JStr ''custom''), (''permissions'', JArr [])]
        scenario_db)
     = Inr (JObj [(''name'', JStr ''n''), (''type'', JStr ''custom''), (''id'', JNum 20),
                  (''createdAt'', JNum 5), (''permissions'', JArr []),
                  (''accessKey'', JStr ''secret'')])
   \<and> related
       (token_permissions
          (snd (create store toy_hmac ''secret''
                  [(''name'', JStr ''n''), (''type'', JStr ''custom''),
                   (''permissions'', JArr [])]
                  scenario_db)))
       [(''id'', JNum 20)]
     = []"
  by code_simp

section \<open>Hashing\<close>

text \<open>The startup check is where the service reports a missing salt: with no salt in
  the configuration and none in the environment, it fails and changes nothing.\<close>

lemma checkSaltIsDefined_missing:
  "\<not> truthy (config_get strapi ''admin.apiToken.salt'' s) \<Longrightarrow> \<not> truthy env_salt
   \<Longrightarrow> checkSaltIsDefined strapi env_salt s = (Inl (Error ''Missing apiToken.salt.''), s)"
  by (simp add: checkSaltIsDefined_def)

text \<open>\<open>hash\<close> has no check of the salt: it hands what the configuration holds to
  \<open>crypto.createHmac\<close> as the key.\<close>

lemma hash_missing_key:
  "config_get strapi ''admin.apiToken.salt'' s = JUndefined
   \<Longrightarrow> hash strapi hmac_sha512 accessKey s
       = Inl (TypeError ''The key argument must be of type string'')"
  by (simp add: hash_def createHmac_def)

text \<open>
  C7, as the code has it. With no salt in the configuration (\<open>admin.apiToken.salt\<close> reads
  as \<open>undefined\<close>), \<open>hash\<close> fails for every secret, with the TypeError that
  \<open>crypto.createHmac\<close> raises for the missing key; the error that names the missing
  configuration is raised by the startup check \<open>checkSaltIsDefined\<close>, which \<open>hash\<close> does
  not call, when neither the configuration nor the environment holds a salt.
\<close>

theorem hash_fails_without_salt:
  "(config_get strapi ''admin.apiToken.salt'' s = JUndefined
      \<longrightarrow> hash strapi hmac_sha512 accessKey s
           = Inl (TypeError ''The key argument must be of type string''))
   \<and> (\<not> truthy (config_get strapi ''admin.apiToken.salt'' s) \<and> \<not> truthy env_salt
      \<longrightarrow> checkSaltIsDefined strapi env_salt s
           = (Inl (Error ''Missing apiToken.salt.''), s))"
  using hash_missing_key [of strapi s hmac_sha512 accessKey]
    checkSaltIsDefined_missing [of strapi s env_salt]
  by blast

theorem hash_fails_without_salt_witness:
  "hash store toy_hmac ''secret'' (scenario_db\<lparr>config := []\<rparr>)
     = Inl (TypeError ''The key argument must be of type string'')
   \<and> checkSaltIsDefined store JUndefined (scenario_db\<lparr>config := []\<rparr>)
     = (Inl (Error ''Missing apiToken.salt.''), scenario_db\<lparr>config := []\<rparr>)"
proof -
  have absent: "config_get store ''admin.apiToken.salt'' (scenario_db\<lparr>config := []\<rparr>)
      = JUndefined"
    by (simp add: store_def)
  then have falsy: "\<not> truthy (config_get store ''admin.apiToken.salt''
      (scenario_db\<lparr>config := []\<rparr>))"
    by simp
  have env: "\<not> truthy JUndefined"
    by simp
  from hash_fails_without_salt
         [of store "scenario_db\<lparr>config := []\<rparr>" toy_hmac "''secret''" JUndefined]
    absent falsy env
  show ?thesis
    by blast
qed

text \<open>
  C7, as the claim states it, fails: with no salt configured the error of \<open>hash\<close> is the
  TypeError of the key check, not the configuration error, which \<open>checkSaltIsDefined\<close>
  raises in the same state.
\<close>

theorem hash_error_is_not_the_configuration_error:
  "hash store toy_hmac ''secret'' (scenario_db\<lparr>config := []\<rparr>)
     = Inl (TypeError ''The key argument must be of type string'')
   \<and> hash store toy_hmac ''secret'' (scenario_db\<lparr>config := []\<rparr>)
     \<noteq> Inl (Error ''Missing apiToken.salt.'')
   \<and> checkSaltIsDefined store JUndefined (scenario_db\<lparr>config := []\<rparr>)
     = (Inl (Error ''Missing apiToken.salt.''), scenario_db\<lparr>config := []\<rparr>)"
  by (simp add: hash_def createHmac_def checkSaltIsDefined_def store_def)

text \<open>
  C8. The digest depends on the secret and on the configured salt only: two evaluations
  of \<open>hash\<close> on the same secret, in any two states of any two collaborators that hold the
  same salt, return the same result.
\<close>

theorem hash_deterministic:
  "config_get strapi ''admin.apiToken.salt'' s = config_get strapi' ''admin.apiToken.salt'' s'
   \<Longrightarrow> hash strapi hmac_sha512 accessKey s = hash strapi' hmac_sha512 accessKey s'"
  by (simp add: hash_def)

theorem hash_deterministic_witness:
  "hash store toy_hmac ''secret'' scenario_db = hash store toy_hmac ''secret'' two_tokens_db
   \<and> hash store toy_hmac ''secret'' scenario_db = Inr ''ksecret''"
proof -
  have "config_get store ''admin.apiToken.salt'' scenario_db
          = config_get store ''admin.apiToken.salt'' two_tokens_db"
    by (simp add: store_def scenario_db_def two_tokens_db_def)
  from hash_deterministic [OF this, of toy_hmac "''secret''"]
  show ?thesis
    by (simp add: hash_def createHmac_def store_def scenario_db_def toy_hmac_def)
qed

section \<open>Lookups\<close>

lemma token_findOne_cases:
  "fst (token_findOne params s) = Inr JNull
   \<or> (\<exists>row. fst (token_findOne params s) = Inr (JObj row))"
  by (auto simp: token_findOne_def view_def split: list.splits)

text \<open>
  C9. \<open>getBy\<close> with empty criteria resolves to \<open>null\<close> without a call to the collaborator
  (whatever the collaborator, its state is unchanged), and \<open>exists\<close> to \<open>false\<close>. For any
  criteria, \<open>exists\<close> is true exactly when \<open>getBy\<close> resolves to a truthy value; on the
  store, with criteria that are not empty, that is exactly when \<open>getBy\<close> resolves to a
  record.
\<close>

theorem getBy_empty_criteria:
  "getBy strapi [] s = (Inr JNull, s)
   \<and> exists strapi [] s = (Inr False, s)
   \<and> (fst (exists strapi whereParams s) = Inr True
        \<longleftrightarrow> (\<exists>v. fst (getBy strapi whereParams s) = Inr v \<and> truthy v))
   \<and> (whereParams \<noteq> []
      \<longrightarrow> (fst (exists store whereParams t) = Inr True
           \<longleftrightarrow> (\<exists>row. fst (getBy store whereParams t) = Inr (JObj row))))"
proof -
  have empty: "getBy strapi [] s = (Inr JNull, s)"
    by (simp add: getBy_def Object_keys_def resolve_def)
  then have no: "exists strapi [] s = (Inr False, s)"
    by (simp add: exists_def await_def resolve_def)
  have "fst (exists store whereParams t) = Inr True
           \<longleftrightarrow> (\<exists>row. fst (getBy store whereParams t) = Inr (JObj row))"
    if "whereParams \<noteq> []"
  proof -
    from that have keys: "length (Object_keys whereParams) \<noteq> 0"
      by (simp add: Object_keys_def)
    let ?params = "[(''select'', strings SELECT_FIELDS),
              (''populate'', strings POPULATE_FIELDS),
              (''where'', JObj whereParams)]"
    from keys have g: "getBy store whereParams t = token_findOne ?params t"
      by (simp add: getBy_def)
    show ?thesis
      using token_findOne_cases [of ?params t]
      by (cases "token_findOne ?params t") (auto simp: exists_def await_def resolve_def g)
  qed
  moreover have "fst (exists strapi whereParams s) = Inr True
        \<longleftrightarrow> (\<exists>v. fst (getBy strapi whereParams s) = Inr v \<and> truthy v)"
    by (cases "getBy strapi whereParams s")
       (auto simp: exists_def await_def resolve_def split: sum.splits)
  ultimately show ?thesis
    using empty no by blast
qed

theorem getBy_empty_criteria_witness:
  "fst (exists store [(''name'', JStr ''t'')] scenario_db) = Inr True
   \<and> fst (getBy store [(''name'', JStr ''t'')] scenario_db)
       = Inr (JObj [(''id'', JNum 1), (''name'', JStr ''t''), (''type'', JStr ''custom''),
                    (''createdAt'', JNum 0),
                    (''permissions'',
                       JArr [JObj [(''id'', JNum 10), (''action'', JStr ''a''),
                                   (''token'', JNum 1)],
                             JObj [(''id'', JNum 11), (''action'', JStr ''b''),
                                   (''token'', JNum 1)]])])
   \<and> getBy store [] scenario_db = (Inr JNull, scenario_db)
   \<and> exists store [] scenario_db = (Inr False, scenario_db)"
proof -
  have nonempty: "[(''name'', JStr ''t'')] \<noteq> []"
    by simp
  have found: "fst (getBy store [(''name'', JStr ''t'')] scenario_db)
       = Inr (JObj [(''id'', JNum 1), (''name'', JStr ''t''), (''type'', JStr ''custom''),
                    (''createdAt'', JNum 0),
                    (''permissions'',
                       JArr [JObj [(''id'', JNum 10), (''action'', JStr ''a''),
                                   (''token'', JNum 1)],
                             JObj [(''id'', JNum 11), (''action'', JStr ''b''),
                                   (''token'', JNum 1)]])])"
    by code_simp
  from getBy_empty_criteria [of store scenario_db "[(''name'', JStr ''t'')]" scenario_db]
    nonempty found
  show ?thesis
    by blast
qed

section \<open>Revocation\<close>

text \<open>
  C10. \<open>revoke\<close> is one \<open>delete\<close> query on the token collection and nothing else: its
  result and the collaborator's new state are those of that query, whatever the
  collaborator; the recorded calls are that one call; and it raises no error of its own,
  so that on the store, for an id that no token has, it resolves to \<open>null\<close> and leaves the
  store as it was.
\<close>

theorem revoke_is_one_delete:
  "revoke strapi ident s
     = query strapi ''admin::api-token'' Delete
         [(''select'', strings SELECT_FIELDS),
          (''populate'', strings POPULATE_FIELDS),
          (''where'', JObj [(''id'', ident)])] s
   \<and> snd (snd (revoke (logged strapi) ident (s, [])))
     = [Query ''admin::api-token'' Delete
         [(''select'', strings SELECT_FIELDS),
          (''populate'', strings POPULATE_FIELDS),
          (''where'', JObj [(''id'', ident)])]]
   \<and> (list_all (\<lambda>row. \<not> matches (JObj [(''id'', ident)]) row) (tokens t)
      \<longrightarrow> revoke store ident t = (Inr JNull, t))"
proof -
  have "filter (matches (JObj [(''id'', ident)])) (tokens t) = []"
    if "list_all (\<lambda>row. \<not> matches (JObj [(''id'', ident)]) row) (tokens t)"
    using that by (simp add: filter_empty_conv list_all_iff)
  then show ?thesis
    by (auto simp: revoke_def logged_def token_delete_def split: prod.splits)
qed

theorem revoke_is_one_delete_witness:
  "revoke store (JNum 7) scenario_db = (Inr JNull, scenario_db)
   \<and> snd (snd (revoke (logged store) (JNum 7) (scenario_db, [])))
     = [Query ''admin::api-token'' Delete
         [(''select'', strings SELECT_FIELDS),
          (''populate'', strings POPULATE_FIELDS),
          (''where'', JObj [(''id'', JNum 7)])]]"
proof -
  have missing:
    "list_all (\<lambda>row. \<not> matches (JObj [(''id'', JNum 7)]) row) (tokens scenario_db)"
    by code_simp
  from revoke_is_one_delete [of store "JNum 7" scenario_db scenario_db] missing
  show ?thesis
    by blast
qed

section \<open>Responses and the secret\<close>

lemma project_keys:
  "fst ` set (project (strings SELECT_FIELDS) row) \<subseteq> set SELECT_FIELDS"
  by (auto simp: project_def strings_def)

lemma view_public:
  assumes "property ''select'' (JObj params) = strings SELECT_FIELDS"
  shows "public_projection (view params s row)"
  using assms project_keys [of row]
  by (auto simp: view_def public_projection_def AList.dom_update POPULATE_FIELDS_def)

lemma public_no_accessKey:
  "public_projection v \<Longrightarrow> property ''accessKey'' v = JUndefined"
proof (cases v)
  case (JObj kvs)
  assume "public_projection v"
  with JObj have "''accessKey'' \<notin> fst ` set kvs"
    by (auto simp: public_projection_def SELECT_FIELDS_def POPULATE_FIELDS_def)
  then have "map_of kvs ''accessKey'' = None"
    by (simp add: map_of_eq_None_iff)
  with JObj show ?thesis by simp
qed simp_all

lemma public_with_permissions:
  "public_projection token \<Longrightarrow> public_projection (JObj (AList.update ''permissions'' p (spread token)))"
  by (cases token) (auto simp: public_projection_def AList.dom_update POPULATE_FIELDS_def)

lemma token_findOne_public:
  "property ''select'' (JObj params) = strings SELECT_FIELDS
   \<Longrightarrow> fst (token_findOne params s) = Inr v \<Longrightarrow> public_projection v"
  using view_public [of params s]
  by (auto simp: token_findOne_def public_projection_def split: list.splits)

lemma token_delete_public:
  "property ''select'' (JObj params) = strings SELECT_FIELDS
   \<Longrightarrow> fst (token_delete params s) = Inr v \<Longrightarrow> public_projection v"
  using view_public [of params s]
  by (auto simp: token_delete_def public_projection_def split: list.splits)

lemma token_update_public:
  "property ''select'' (JObj params) = strings SELECT_FIELDS
   \<Longrightarrow> fst (token_update params s) = Inr v \<Longrightarrow> public_projection v"
  using view_public [of params]
  by (auto simp: token_update_def public_projection_def Let_def split: list.splits)

lemma token_findMany_public:
  "property ''select'' (JObj params) = strings SELECT_FIELDS
   \<Longrightarrow> fst (token_findMany params s) = Inr v \<Longrightarrow> list_all public_projection (elements v)"
  using view_public [of params s]
  by (auto simp: token_findMany_def list_all_iff)

lemma getBy_public:
  "fst (getBy store whereParams s) = Inr v \<Longrightarrow> public_projection v"
  using token_findOne_public [of "[(''select'', strings SELECT_FIELDS),
              (''populate'', strings POPULATE_FIELDS),
              (''where'', JObj whereParams)]" s v]
  by (auto simp: getBy_def resolve_def public_projection_def split: if_splits)

lemma revoke_public:
  "fst (revoke store ident s) = Inr v \<Longrightarrow> public_projection v"
  using token_delete_public [of "[(''select'', strings SELECT_FIELDS),
        (''populate'', strings POPULATE_FIELDS),
        (''where'', JObj [(''id'', ident)])]" s v]
  by (auto simp: revoke_def)

lemma list_public:
  "fst (list store s) = Inr v \<Longrightarrow> list_all public_projection (elements v)"
  using token_findMany_public [of "[(''select'', strings SELECT_FIELDS),
        (''populate'', strings POPULATE_FIELDS),
        (''orderBy'', JObj [(''name'', JStr ''ASC'')])]" s v]
  by (auto simp: list_def)

lemma update_public:
  assumes "fst (update store ident attributes s) = Inr v"
  shows "public_projection v"
proof -
  let ?params = "[(''select'', strings SELECT_FIELDS),
               (''populate'', strings POPULATE_FIELDS),
               (''where'', JObj [(''id'', ident)]),
               (''data'', JObj (omit ''permissions'' attributes))]"
  have sel: "property ''select'' (JObj ?params) = strings SELECT_FIELDS"
    by simp
  from assms have "\<exists>token s1 s2 p. token_update ?params s1 = (Inr token, s2)
      \<and> v = JObj (AList.update ''permissions'' p (spread token))"
    by (auto simp: update_def await_def throw_def resolve_def
          split: prod.splits sum.splits if_splits)
  then obtain token s1 s2 p where "token_update ?params s1 = (Inr token, s2)"
    and v: "v = JObj (AList.update ''permissions'' p (spread token))"
    by blast
  then have tok: "fst (token_update ?params s1) = Inr token"
    by simp
  from token_update_public [OF sel tok] v show ?thesis
    by (simp add: public_with_permissions)
qed

lemma create_accessKey:
  assumes "fst (create strapi hmac_sha512 accessKey attributes s) = Inr v"
  shows "property ''accessKey'' v = JStr accessKey"
proof -
  have *: "map_of (AList.update ''permissions'' p (AList.update ''accessKey'' (JStr accessKey) kvs)) ''accessKey''
        = Some (JStr accessKey)" for p kvs
    by (simp add: AList.update_conv')
  have **: "map_of (AList.update ''accessKey'' (JStr accessKey) kvs) ''accessKey''
        = Some (JStr accessKey)" for kvs
    by (simp add: AList.update_conv')
  from assms show ?thesis
    by (auto simp: create_def await_def throw_def resolve_def Let_def * **
          split: prod.splits sum.splits if_splits jsval.splits)
qed

text \<open>
  C6. The plaintext key is in the response of \<open>create\<close>, under \<open>accessKey\<close>, whatever the
  collaborator returns. On the store, which returns the selected properties and the
  populated permissions only, every response of \<open>update\<close>, \<open>revoke\<close>, \<open>getById\<close>,
  \<open>getByName\<close> and \<open>getBy\<close>, and every element of the response of \<open>list\<close>, is a public
  projection: it has no property \<open>accessKey\<close>, so neither the stored digest nor the
  plaintext.
\<close>

theorem secret_exposure:
  "(\<forall>v. fst (create strapi hmac_sha512 accessKey attributes s') = Inr v
        \<longrightarrow> property ''accessKey'' v = JStr accessKey)
   \<and> (\<forall>v. fst (update store ident attributes s) = Inr v
        \<longrightarrow> public_projection v \<and> property ''accessKey'' v = JUndefined)
   \<and> (\<forall>v. fst (revoke store ident s) = Inr v
        \<longrightarrow> public_projection v \<and> property ''accessKey'' v = JUndefined)
   \<and> (\<forall>v. fst (getById store ident s) = Inr v
        \<longrightarrow> public_projection v \<and> property ''accessKey'' v = JUndefined)
   \<and> (\<forall>v. fst (getByName store name s) = Inr v
        \<longrightarrow> public_projection v \<and> property ''accessKey'' v = JUndefined)
   \<and> (\<forall>v. fst (getBy store whereParams s) = Inr v
        \<longrightarrow> public_projection v \<and> property ''accessKey'' v = JUndefined)
   \<and> (\<forall>v. fst (list store s) = Inr v
        \<longrightarrow> list_all (\<lambda>token. public_projection token
                          \<and> property ''accessKey'' token = JUndefined) (elements v))"
proof -
  have listed: "list_all (\<lambda>token. public_projection token
                          \<and> property ''accessKey'' token = JUndefined) (elements v)"
    if "fst (list store s) = Inr v" for v
    using list_public [OF that] by (auto simp: list_all_iff public_no_accessKey)
  show ?thesis
    using create_accessKey [of strapi hmac_sha512 accessKey attributes s']
      update_public [of ident attributes s] revoke_public [of ident s]
      getBy_public [of "[(''id'', ident)]" s] getBy_public [of "[(''name'', name)]" s]
      getBy_public [of whereParams s] listed
    by (simp add: getById_def getByName_def public_no_accessKey)
qed

theorem secret_exposure_witness:
  "fst (create store toy_hmac ''secret'' [(''name'', JStr ''n''), (''type'', JStr ''read-only'')]
          scenario_db)
     = Inr (JObj [(''name'', JStr ''n''), (''type'', JStr ''read-only''), (''id'', JNum 20),
                  (''createdAt'', JNum 5), (''permissions'', JArr []),
                  (''accessKey'', JStr ''secret'')])
   \<and> property ''accessKey''
        (JObj [(''name'', JStr ''n''), (''type'', JStr ''read-only''), (''id'', JNum 20),
               (''createdAt'', JNum 5), (''permissions'', JArr []),
               (''accessKey'', JStr ''secret'')]) = JStr ''secret''
   \<and> fst (getById store (JNum 1) scenario_db)
     = Inr (JObj [(''id'', JNum 1), (''name'', JStr ''t''), (''type'', JStr ''custom''),
                  (''createdAt'', JNum 0),
                  (''permissions'',
                     JArr [JObj [(''id'', JNum 10), (''action'', JStr ''a''),
                                 (''token'', JNum 1)],
                           JObj [(''id'', JNum 11), (''action'', JStr ''b''),
                                 (''token'', JNum 1)]])])
   \<and> public_projection
        (JObj [(''id'', JNum 1), (''name'', JStr ''t''), (''type'', JStr ''custom''),
               (''createdAt'', JNum 0),
               (''permissions'',
                  JArr [JObj [(''id'', JNum 10), (''action'', JStr ''a''),
                              (''token'', JNum 1)],
                        JObj [(''id'', JNum 11), (''action'', JStr ''b''),
                              (''token'', JNum 1)]])])"
proof -
  have created: "fst (create store toy_hmac ''secret''
          [(''name'', JStr ''n''), (''type'', JStr ''read-only'')] scenario_db)
     = Inr (JObj [(''name'', JStr ''n''), (''type'', JStr ''read-only''), (''id'', JNum 20),
                  (''createdAt'', JNum 5), (''permissions'', JArr []),
                  (''accessKey'', JStr ''secret'')])"
    by code_simp
  have found: "fst (getById store (JNum 1) scenario_db)
     = Inr (JObj [(''id'', JNum 1), (''name'', JStr ''t''), (''type'', JStr ''custom''),
                  (''createdAt'', JNum 0),
                  (''permissions'',
                     JArr [JObj [(''id'', JNum 10), (''action'', JStr ''a''),
                                 (''token'', JNum 1)],
                           JObj [(''id'', JNum 11), (''action'', JStr ''b''),
                                 (''token'', JNum 1)]])])"
    by code_simp
  from secret_exposure [of store toy_hmac "''secret''"
         "[(''name'', JStr ''n''), (''type'', JStr ''read-only'')]" scenario_db
         "JNum 1" scenario_db "JStr ''t''" "[]"]
    created found
  show ?thesis
    by blast
qed

section \<open>The reconciliation of permissions in update\<close>

text \<open>
  The two differences against a list of strings, in general: every element of a list of
  strings has the key \<open>undefined\<close>, so the first difference keeps every stored permission
  that has an action, and the second keeps every string when the stored permissions all
  have one.
\<close>

lemma property_action_string:
  "list_all (\<lambda>x. case x of JStr a \<Rightarrow> True | _ \<Rightarrow> False) desired
   \<Longrightarrow> set (map (property ''action'') desired) \<subseteq> {JUndefined}"
proof (induction desired)
  case Nil
  then show ?case by simp
next
  case (Cons x desired)
  then show ?case by (cases x) simp_all
qed

lemma differenceBy_stored_against_strings:
  assumes "list_all (\<lambda>x. case x of JStr a \<Rightarrow> True | _ \<Rightarrow> False) desired"
    and "list_all (\<lambda>p. property ''action'' p \<noteq> JUndefined) stored"
  shows "differenceBy ''action'' (JArr stored) (JArr desired) = stored"
    and "differenceBy ''action'' (JArr desired) (JArr stored) = desired"
proof -
  from assms(1) have keys: "set (map (property ''action'') desired) \<subseteq> {JUndefined}"
    by (rule property_action_string)
  with assms(2) have "\<forall>p \<in> set stored. property ''action'' p \<notin> set (map (property ''action'') desired)"
    by (auto simp: list_all_iff)
  then show "differenceBy ''action'' (JArr stored) (JArr desired) = stored"
    by (simp add: differenceBy_def filter_id_conv)
  from keys have "\<forall>x \<in> set desired. property ''action'' x = JUndefined"
    by auto
  with assms(2)
  have "\<forall>x \<in> set desired. property ''action'' x \<notin> set (map (property ''action'') stored)"
    by (auto simp: list_all_iff)
  then show "differenceBy ''action'' (JArr desired) (JArr stored) = desired"
    by (simp add: differenceBy_def filter_id_conv)
qed

text \<open>
  C2 on the code, scenario D: token 1 holds the permissions \<open>a\<close> and \<open>b\<close>, and the desired
  list is \<open>['b', 'c']\<close>. A string has no property \<open>action\<close>, so no stored permission is
  found in the desired list and no desired string is found among the stored actions:
  \<open>a\<close> and \<open>b\<close> are both deleted, and two permissions are created whose \<open>action\<close> is
  \<open>undefined\<close>. The resulting set is not \<open>{b, c}\<close>.
\<close>

theorem update_scenario_D:
  "update store (JNum 1) [(''permissions'', JArr [JStr ''b'', JStr ''c''])] scenario_db
     = (Inr (JObj
          [(''id'', JNum 1), (''name'', JStr ''t''), (''type'', JStr ''custom''),
           (''createdAt'', JNum 0),
           (''permissions'',
              JArr [JObj [(''action'', JUndefined), (''token'', JNum 1), (''id'', JNum 20)],
                    JObj [(''action'', JUndefined), (''token'', JNum 1), (''id'', JNum 21)]])]),
        scenario_db
          \<lparr>token_permissions :=
             [[(''action'', JUndefined), (''token'', JNum 1), (''id'', JNum 20)],
              [(''action'', JUndefined), (''token'', JNum 1), (''id'', JNum 21)]],
           next_id := 22\<rparr>)"
  by code_simp

text \<open>
  C3 on the code: updating the custom token 1 to \<open>read-only\<close> succeeds, makes no call that
  deletes a permission, and leaves the permissions \<open>a\<close> and \<open>b\<close> of the token in the store
  and in the response.
\<close>

theorem update_to_read_only_keeps_permissions:
  "update store (JNum 1) [(''type'', JStr ''read-only'')] scenario_db
     = (Inr (JObj
          [(''id'', JNum 1), (''name'', JStr ''t''), (''type'', JStr ''read-only''),
           (''createdAt'', JNum 0),
           (''permissions'',
              JArr [JObj [(''id'', JNum 10), (''action'', JStr ''a''), (''token'', JNum 1)],
                    JObj [(''id'', JNum 11), (''action'', JStr ''b''), (''token'', JNum 1)]])]),
        scenario_db
          \<lparr>tokens := [[(''id'', JNum 1), (''name'', JStr ''t''), (''type'', JStr ''read-only''),
                       (''accessKey'', JStr ''h1''), (''createdAt'', JNum 0)]]\<rparr>)
   \<and> snd (snd (update (logged store) (JNum 1) [(''type'', JStr ''read-only'')]
                 (scenario_db, [])))
     = [Query ''admin::api-token'' FindOne [(''where'', JObj [(''id'', JNum 1)])],
        Query ''admin::api-token'' Update
          [(''select'', strings SELECT_FIELDS),
           (''populate'', strings POPULATE_FIELDS),
           (''where'', JObj [(''id'', JNum 1)]),
           (''data'', JObj [(''type'', JStr ''read-only'')])],
        Load ''admin::api-token''
          (JObj [(''id'', JNum 1), (''name'', JStr ''t''), (''type'', JStr ''read-only''),
                 (''createdAt'', JNum 0),
                 (''permissions'',
                    JArr [JObj [(''id'', JNum 10), (''action'', JStr ''a''),
                                (''token'', JNum 1)],
                          JObj [(''id'', JNum 11), (''action'', JStr ''b''),
                                (''token'', JNum 1)]])])
          ''permissions'']"
  by code_simp

text \<open>
  C4 on the code: for the token of scenario D as \<open>update\<close> reads it, and the desired list
  \<open>['a', 'b']\<close> of its own actions, neither difference is empty, and the update deletes
  both permissions and creates two.
\<close>

theorem diff_of_own_actions:
  "permissionsToDelete
     (JObj [(''id'', JNum 1), (''name'', JStr ''t''), (''type'', JStr ''custom''),
            (''createdAt'', JNum 0),
            (''permissions'',
               JArr [JObj [(''id'', JNum 10), (''action'', JStr ''a''), (''token'', JNum 1)],
                     JObj [(''id'', JNum 11), (''action'', JStr ''b''), (''token'', JNum 1)]])])
     [(''permissions'', JArr [JStr ''a'', JStr ''b''])]
     = [JObj [(''id'', JNum 10), (''action'', JStr ''a''), (''token'', JNum 1)],
        JObj [(''id'', JNum 11), (''action'', JStr ''b''), (''token'', JNum 1)]]
   \<and> permissionsToCreate
     (JObj [(''id'', JNum 1), (''name'', JStr ''t''), (''type'', JStr ''custom''),
            (''createdAt'', JNum 0),
            (''permissions'',
               JArr [JObj [(''id'', JNum 10), (''action'', JStr ''a''), (''token'', JNum 1)],
                     JObj [(''id'', JNum 11), (''action'', JStr ''b''), (''token'', JNum 1)]])])
     [(''permissions'', JArr [JStr ''a'', JStr ''b''])]
     = [JStr ''a'', JStr ''b'']
   \<and> snd (update store (JNum 1) [(''permissions'', JArr [JStr ''a'', JStr ''b''])] scenario_db)
     = scenario_db
         \<lparr>token_permissions :=
            [[(''action'', JUndefined), (''token'', JNum 1), (''id'', JNum 20)],
             [(''action'', JUndefined), (''token'', JNum 1), (''id'', JNum 21)]],
          next_id := 22\<rparr>"
  by code_simp

text \<open>
  C5 on the code, with a second token that also holds \<open>a\<close>: for the desired list
  \<open>['b', 'c']\<close> on token 1, \<open>b\<close> is in both differences and its row is deleted, and the
  \<open>deleteMany\<close> query, which filters on \<open>action\<close> alone, removes the permission \<open>a\<close> of
  token 2 as well.
\<close>

theorem update_deletes_permission_of_other_token:
  "permissionsToDelete
     (JObj [(''id'', JNum 1), (''name'', JStr ''t''), (''type'', JStr ''custom''),
            (''createdAt'', JNum 0),
            (''permissions'',
               JArr [JObj [(''id'', JNum 10), (''action'', JStr ''a''), (''token'', JNum 1)],
                     JObj [(''id'', JNum 11), (''action'', JStr ''b''), (''token'', JNum 1)]])])
     [(''permissions'', JArr [JStr ''b'', JStr ''c''])]
     = [JObj [(''id'', JNum 10), (''action'', JStr ''a''), (''token'', JNum 1)],
        JObj [(''id'', JNum 11), (''action'', JStr ''b''), (''token'', JNum 1)]]
   \<and> permissionsToCreate
     (JObj [(''id'', JNum 1), (''name'', JStr ''t''), (''type'', JStr ''custom''),
            (''createdAt'', JNum 0),
            (''permissions'',
               JArr [JObj [(''id'', JNum 10), (''action'', JStr ''a''), (''token'', JNum 1)],
                     JObj [(''id'', JNum 11), (''action'', JStr ''b''), (''token'', JNum 1)]])])
     [(''permissions'', JArr [JStr ''b'', JStr ''c''])]
     = [JStr ''b'', JStr ''c'']
   \<and> related (token_permissions two_tokens_db) [(''id'', JNum 2)]
     = [[(''id'', JNum 12), (''action'', JStr ''a''), (''token'', JNum 2)]]
   \<and> related
       (token_permissions
          (snd (update store (JNum 1) [(''permissions'', JArr [JStr ''b'', JStr ''c''])]
                  two_tokens_db)))
       [(''id'', JNum 2)]
     = []"
  by code_simp

text \<open>The permission of the other token is lost also when the desired list is given as
  objects with an \<open>action\<close>, where the two differences are the intended ones.\<close>

lemma deleteMany_not_scoped_to_token:
  "snd (update store (JNum 1)
          [(''permissions'', JArr [JObj [(''action'', JStr ''b'')], JObj [(''action'', JStr ''c'')]])]
          two_tokens_db)
     = two_tokens_db
         \<lparr>token_permissions :=
            [[(''id'', JNum 11), (''action'', JStr ''b''), (''token'', JNum 1)],
             [(''action'', JStr ''c''), (''token'', JNum 1), (''id'', JNum 20)]],
          next_id := 21\<rparr>"
  by code_simp

end
